theory Spec2Isabelle
  imports Main
begin

section \<open>The hello-world Lambda handler of the step-function SAM example\<close>

text \<open>
  The development embeds \<^verbatim>\<open>lambda_handler\<close> of
  \<^verbatim>\<open>serverless/examples/step_function_sam_app/hello_world_python/app.py\<close>:
  \<^verbatim>\<open>
  def lambda_handler(event, context):
      with tracer.trace("hello.world"):
          print("Hello, World!")
      with tracer.trace("sleep"):
          time.sleep(1)
      return {
          "statusCode": 200,
          "body": json.dumps({
              "message": "Hello world!",
          }),
      }
  \<close>
  The handler is straight-line code over four library operations (\<^verbatim>\<open>tracer.trace\<close>,
  \<^verbatim>\<open>print\<close>, \<^verbatim>\<open>time.sleep\<close>, \<^verbatim>\<open>json.dumps\<close>). Python values are a datatype, an
  exception is the left summand of a result, and the operations act on an explicit world:
  the objects the caller holds, a clock, and the log of the library calls made so far.
\<close>

subsection \<open>Python values and exceptions\<close>

text \<open>
  The values that occur as event, context, response and JSON documents. A \<open>str\<close> is a
  list of characters with code points below 256; a \<open>dict\<close> with string keys is an
  association list in insertion order; \<open>PObject\<close> is any other object (the Lambda
  context object, for instance), known only by the name of its class. Floats are left out.
\<close>

datatype pyval =
    PNone
  | PBool bool
  | PInt int
  | PStr string
  | PList "pyval list"
  | PDict "(string \<times> pyval) list"
  | PObject string

datatype py_exception = PyExc (exc_type: string) (exc_msg: string)

type_synonym 'a result = "py_exception + 'a"

text \<open>\<^verbatim>\<open>d[k]\<close> on a dict value, as a lookup that may find nothing.\<close>

fun dict_get :: "pyval \<Rightarrow> string \<Rightarrow> pyval option" where
  "dict_get (PDict kvs) k = map_of kvs k"
| "dict_get _ k = None"

fun dict_keys :: "pyval \<Rightarrow> string list" where
  "dict_keys (PDict kvs) = map fst kvs"
| "dict_keys _ = []"

subsection \<open>\<^verbatim>\<open>json.dumps\<close> with its default arguments\<close>

text \<open>
  The encoder of the standard library with the defaults the handler uses:
  \<^verbatim>\<open>ensure_ascii=True\<close>, item separator \<^verbatim>\<open>", "\<close>, key separator \<^verbatim>\<open>": "\<close>, keys in
  insertion order, \<^verbatim>\<open>TypeError\<close> for an object that is not serializable.
\<close>

definition hex_digit :: "nat \<Rightarrow> char" where
  "hex_digit n = ''0123456789abcdef'' ! (n mod 16)"

definition escape_char :: "char \<Rightarrow> string" where
  "escape_char c =
     (if c = CHR 0x22 then [CHR 0x5C, CHR 0x22]
      else if c = CHR 0x5C then [CHR 0x5C, CHR 0x5C]
      else if c = CHR 0x0A then [CHR 0x5C, CHR ''n'']
      else if c = CHR 0x0D then [CHR 0x5C, CHR ''r'']
      else if c = CHR 0x09 then [CHR 0x5C, CHR ''t'']
      else if c = CHR 0x08 then [CHR 0x5C, CHR ''b'']
      else if c = CHR 0x0C then [CHR 0x5C, CHR ''f'']
      else if (of_char c :: nat) < 32 \<or> 126 < (of_char c :: nat)
        then [CHR 0x5C, CHR ''u'', CHR ''0'', CHR ''0'',
              hex_digit (of_char c div 16), hex_digit (of_char c mod 16)]
      else [c])"

definition encode_str :: "string \<Rightarrow> string" where
  "encode_str s = [CHR 0x22] @ concat (map escape_char s) @ [CHR 0x22]"

function dec_digits :: "nat \<Rightarrow> string" where
  "dec_digits n =
     (if n < 10 then [char_of (48 + n)]
      else dec_digits (n div 10) @ [char_of (48 + n mod 10)])"
  by pat_completeness auto
termination
  by (relation "measure (\<lambda>n. n)") auto

definition encode_int :: "int \<Rightarrow> string" where
  "encode_int i = (if i < 0 then CHR ''-'' # dec_digits (nat (- i)) else dec_digits (nat i))"

fun join :: "string \<Rightarrow> string list \<Rightarrow> string" where
  "join sep [] = []"
| "join sep [x] = x"
| "join sep (x # y # ys) = x @ sep @ join sep (y # ys)"

fun json_dumps :: "pyval \<Rightarrow> string result"
  and dumps_items :: "pyval list \<Rightarrow> string list result"
  and dumps_members :: "(string \<times> pyval) list \<Rightarrow> string list result" where
  "json_dumps PNone = Inr ''null''"
| "json_dumps (PBool b) = Inr (if b then ''true'' else ''false'')"
| "json_dumps (PInt i) = Inr (encode_int i)"
| "json_dumps (PStr s) = Inr (encode_str s)"
| "json_dumps (PList xs) =
     (case dumps_items xs of
        Inl e \<Rightarrow> Inl e
      | Inr ss \<Rightarrow> Inr (''['' @ join '', '' ss @ '']''))"
| "json_dumps (PDict kvs) =
     (case dumps_members kvs of
        Inl e \<Rightarrow> Inl e
      | Inr ss \<Rightarrow> Inr (''{'' @ join '', '' ss @ ''}''))"
| "json_dumps (PObject cls) =
     Inl (PyExc ''TypeError'' (''Object of type '' @ cls @ '' is not JSON serializable''))"
| "dumps_items [] = Inr []"
| "dumps_items (x # xs) =
     (case json_dumps x of
        Inl e \<Rightarrow> Inl e
      | Inr s \<Rightarrow> (case dumps_items xs of Inl e \<Rightarrow> Inl e | Inr ss \<Rightarrow> Inr (s # ss)))"
| "dumps_members [] = Inr []"
| "dumps_members ((k, v) # kvs) =
     (case json_dumps v of
        Inl e \<Rightarrow> Inl e
      | Inr s \<Rightarrow>
          (case dumps_members kvs of
             Inl e \<Rightarrow> Inl e
           | Inr ss \<Rightarrow> Inr ((encode_str k @ '': '' @ s) # ss)))"

subsection \<open>\<^verbatim>\<open>json.loads\<close>\<close>

text \<open>
  The decoder of the standard library on the float-free fragment of JSON: objects, arrays,
  strings with their escapes, integers, \<^verbatim>\<open>true\<close>, \<^verbatim>\<open>false\<close> and \<^verbatim>\<open>null\<close>. A repeated key
  keeps its first position and its last value, as a Python dict does. The recursion over
  nested documents is bounded by a fuel that \<open>json_loads\<close> takes from the length of
  the text. \<open>None\<close> and \<open>Inl\<close> stand for \<^verbatim>\<open>JSONDecodeError\<close> (or for a text outside the
  fragment).
\<close>

definition is_ws :: "char \<Rightarrow> bool" where
  "is_ws c = (c = CHR 0x20 \<or> c = CHR 0x09 \<or> c = CHR 0x0A \<or> c = CHR 0x0D)"

definition skip_ws :: "string \<Rightarrow> string" where
  "skip_ws s = dropWhile is_ws s"

definition is_digit :: "char \<Rightarrow> bool" where
  "is_digit c = (48 \<le> (of_char c :: nat) \<and> (of_char c :: nat) \<le> 57)"

definition hex_val :: "char \<Rightarrow> nat option" where
  "hex_val c =
     (let n = (of_char c :: nat) in
      if 48 \<le> n \<and> n \<le> 57 then Some (n - 48)
      else if 97 \<le> n \<and> n \<le> 102 then Some (n - 87)
      else if 65 \<le> n \<and> n \<le> 70 then Some (n - 55)
      else None)"

definition unescape :: "char \<Rightarrow> char option" where
  "unescape e =
     (if e = CHR 0x22 \<or> e = CHR 0x5C \<or> e = CHR ''/'' then Some e
      else if e = CHR ''n'' then Some (CHR 0x0A)
      else if e = CHR ''r'' then Some (CHR 0x0D)
      else if e = CHR ''t'' then Some (CHR 0x09)
      else if e = CHR ''b'' then Some (CHR 0x08)
      else if e = CHR ''f'' then Some (CHR 0x0C)
      else None)"

definition unescape_u :: "char \<Rightarrow> char \<Rightarrow> char \<Rightarrow> char \<Rightarrow> char option" where
  "unescape_u a b c d =
     (case (hex_val a, hex_val b, hex_val c, hex_val d) of
        (Some h3, Some h2, Some h1, Some h0) \<Rightarrow>
          (if h3 = 0 \<and> h2 = 0 then Some (char_of (16 * h1 + h0)) else None)
      | _ \<Rightarrow> None)"

text \<open>The text after an opening quote, up to the closing one; \<open>acc\<close> is reversed.\<close>

fun parse_string :: "string \<Rightarrow> string \<Rightarrow> (string \<times> string) option" where
  "parse_string acc [] = None"
| "parse_string acc (c # r) =
     (if c = CHR 0x22 then Some (rev acc, r)
      else if c = CHR 0x5C then
        (case r of
           [] \<Rightarrow> None
         | e # r1 \<Rightarrow>
             (if e = CHR ''u'' then
                (case r1 of
                   a # b # c' # d # r2 \<Rightarrow>
                     (case unescape_u a b c' d of
                        None \<Rightarrow> None
                      | Some u \<Rightarrow> parse_string (u # acc) r2)
                 | _ \<Rightarrow> None)
              else
                (case unescape e of
                   None \<Rightarrow> None
                 | Some u \<Rightarrow> parse_string (u # acc) r1)))
      else if (of_char c :: nat) < 32 then None
      else parse_string (c # acc) r)"

definition digits_val :: "string \<Rightarrow> nat" where
  "digits_val ds = foldl (\<lambda>a c. 10 * a + (of_char c - 48)) 0 ds"

definition parse_nat :: "string \<Rightarrow> (nat \<times> string) option" where
  "parse_nat s =
     (let ds = takeWhile is_digit s; r = dropWhile is_digit s in
      if ds = [] then None
      else if hd ds = CHR ''0'' \<and> tl ds \<noteq> [] then Some (0, tl ds @ r)
      else Some (digits_val ds, r))"

definition parse_int :: "string \<Rightarrow> (pyval \<times> string) option" where
  "parse_int s =
     (let neg = (s \<noteq> [] \<and> hd s = CHR ''-'') in
      case parse_nat (if neg then tl s else s) of
        None \<Rightarrow> None
      | Some (n, r) \<Rightarrow>
          (if r \<noteq> [] \<and> (hd r = CHR ''.'' \<or> hd r = CHR ''e'' \<or> hd r = CHR ''E'') then None
           else Some (PInt (if neg then - int n else int n), r)))"

fun dict_set :: "(string \<times> pyval) list \<Rightarrow> string \<Rightarrow> pyval \<Rightarrow> (string \<times> pyval) list" where
  "dict_set [] k v = [(k, v)]"
| "dict_set ((k', v') # kvs) k v =
     (if k' = k then (k, v) # kvs else (k', v') # dict_set kvs k v)"

fun parse_value :: "nat \<Rightarrow> string \<Rightarrow> (pyval \<times> string) option"
  and parse_items :: "nat \<Rightarrow> pyval list \<Rightarrow> string \<Rightarrow> (pyval \<times> string) option"
  and parse_members ::
    "nat \<Rightarrow> (string \<times> pyval) list \<Rightarrow> string \<Rightarrow> (pyval \<times> string) option" where
  "parse_value 0 s = None"
| "parse_value (Suc n) s =
     (case s of
        [] \<Rightarrow> None
      | c # r \<Rightarrow>
          (if c = CHR ''{'' then
             (case skip_ws r of
                [] \<Rightarrow> None
              | d # r1 \<Rightarrow> if d = CHR ''}'' then Some (PDict [], r1) else parse_members n [] (d # r1))
           else if c = CHR ''['' then
             (case skip_ws r of
                [] \<Rightarrow> None
              | d # r1 \<Rightarrow> if d = CHR '']'' then Some (PList [], r1) else parse_items n [] (d # r1))
           else if c = CHR 0x22 then
             (case parse_string [] r of
                None \<Rightarrow> None
              | Some (str, r1) \<Rightarrow> Some (PStr str, r1))
           else if take 4 s = ''null'' then Some (PNone, drop 4 s)
           else if take 4 s = ''true'' then Some (PBool True, drop 4 s)
           else if take 5 s = ''false'' then Some (PBool False, drop 5 s)
           else parse_int s))"
| "parse_items 0 acc s = None"
| "parse_items (Suc n) acc s =
     (case parse_value n s of
        None \<Rightarrow> None
      | Some (v, r) \<Rightarrow>
          (case skip_ws r of
             [] \<Rightarrow> None
           | c # r1 \<Rightarrow>
               if c = CHR '','' then parse_items n (acc @ [v]) (skip_ws r1)
               else if c = CHR '']'' then Some (PList (acc @ [v]), r1)
               else None))"
| "parse_members 0 acc s = None"
| "parse_members (Suc n) acc s =
     (case s of
        [] \<Rightarrow> None
      | q # r \<Rightarrow>
          if q \<noteq> CHR 0x22 then None
          else
            (case parse_string [] r of
               None \<Rightarrow> None
             | Some (k, r1) \<Rightarrow>
                 (case skip_ws r1 of
                    [] \<Rightarrow> None
                  | c # r2 \<Rightarrow>
                      if c \<noteq> CHR '':'' then None
                      else
                        (case parse_value n (skip_ws r2) of
                           None \<Rightarrow> None
                         | Some (v, r3) \<Rightarrow>
                             (case skip_ws r3 of
                                [] \<Rightarrow> None
                              | d # r4 \<Rightarrow>
                                  if d = CHR '','' then
                                    parse_members n (dict_set acc k v) (skip_ws r4)
                                  else if d = CHR ''}'' then
                                    Some (PDict (dict_set acc k v), r4)
                                  else None)))))"

definition json_loads :: "string \<Rightarrow> pyval result" where
  "json_loads s =
     (case parse_value (2 * length s + 2) (skip_ws s) of
        None \<Rightarrow> Inl (PyExc ''JSONDecodeError'' ''Expecting value'')
      | Some (v, r) \<Rightarrow>
          (if skip_ws r = [] then Inr v else Inl (PyExc ''JSONDecodeError'' ''Extra data'')))"

subsection \<open>The world of an invocation\<close>

text \<open>
  The handler receives \<open>event\<close> and \<open>context\<close> as references to objects of its caller;
  \<open>objects\<close> is the store they point into. \<open>clock\<close> counts nanoseconds and never runs
  backwards. \<open>calls\<close> is the log of the library calls made, oldest first: when each was
  made, which one, and the exception it raised, if any. A span is known by its name and
  the time it was started at; \<open>SpanExit\<close> is the call of its \<^verbatim>\<open>__exit__\<close>.
\<close>

type_synonym ref = nat

record span =
  span_name :: string
  start_ns :: nat

datatype call =
    TracerTrace string
  | SpanExit span
  | Print string
  | TimeSleep int

record entry =
  at_ns :: nat
  made :: call
  raised :: "py_exception option"

record world =
  objects :: "ref \<Rightarrow> pyval option"
  clock :: nat
  calls :: "entry list"

text \<open>
  What lies outside the handler is a parameter: \<open>raises\<close> tells, from the calls made
  so far, whether the next call raises, and \<open>latency\<close> how long it takes beyond the
  time it asks for.
\<close>

record platform =
  raises :: "entry list \<Rightarrow> call \<Rightarrow> py_exception option"
  latency :: "entry list \<Rightarrow> call \<Rightarrow> nat"

definition invoke :: "platform \<Rightarrow> call \<Rightarrow> py_exception option \<Rightarrow> nat \<Rightarrow> world \<Rightarrow> world" where
  "invoke P c out took w =
     w\<lparr>clock := clock w + took + latency P (calls w) c,
       calls := calls w @ [\<lparr>at_ns = clock w, made = c, raised = out\<rparr>]\<rparr>"

text \<open>
  \<^verbatim>\<open>tracer.trace(name)\<close> starts a span and returns it, unless span creation fails.
  A span is its own context manager: \<^verbatim>\<open>__enter__\<close> returns it, and \<^verbatim>\<open>__exit__\<close>
  finishes it, raises nothing and returns \<^verbatim>\<open>None\<close>, so that it never suppresses the
  exception of the block (\<open>False\<close> below).
\<close>

definition tracer_trace :: "platform \<Rightarrow> string \<Rightarrow> world \<Rightarrow> span result \<times> world" where
  "tracer_trace P name w =
     (let out = raises P (calls w) (TracerTrace name) in
      ((case out of
          Some x \<Rightarrow> Inl x
        | None \<Rightarrow> Inr \<lparr>span_name = name, start_ns = clock w\<rparr>),
       invoke P (TracerTrace name) out 0 w))"

definition span_exit :: "platform \<Rightarrow> span \<Rightarrow> py_exception option \<Rightarrow> world \<Rightarrow> bool \<times> world" where
  "span_exit P sp exc w = (False, invoke P (SpanExit sp) None 0 w)"

definition py_print :: "platform \<Rightarrow> string \<Rightarrow> world \<Rightarrow> unit result \<times> world" where
  "py_print P s w =
     (let out = raises P (calls w) (Print s) in
      ((case out of Some x \<Rightarrow> Inl x | None \<Rightarrow> Inr ()),
       invoke P (Print s) out 0 w))"

text \<open>
  \<^verbatim>\<open>time.sleep(secs)\<close> rejects a negative length; when it returns, at least \<open>secs\<close>
  seconds have passed; it raises when a signal handler raises during the sleep.
\<close>

definition time_sleep :: "platform \<Rightarrow> int \<Rightarrow> world \<Rightarrow> unit result \<times> world" where
  "time_sleep P secs w =
     (if secs < 0 then (Inl (PyExc ''ValueError'' ''sleep length must be non-negative''), w)
      else
        (let out = raises P (calls w) (TimeSleep secs) in
         ((case out of Some x \<Rightarrow> Inl x | None \<Rightarrow> Inr ()),
          invoke P (TimeSleep secs) out
            (case out of Some x \<Rightarrow> 0 | None \<Rightarrow> nat secs * 1000000000) w)))"

text \<open>
  The statement \<^verbatim>\<open>with tracer.trace(name): body\<close>: the span is created; the block runs;
  \<^verbatim>\<open>__exit__\<close> is called whether the block returned or raised, with the exception of the
  block if there is one, which is raised again unless \<^verbatim>\<open>__exit__\<close> returns true.
\<close>

definition with_span ::
  "platform \<Rightarrow> string \<Rightarrow> (world \<Rightarrow> unit result \<times> world) \<Rightarrow> world \<Rightarrow> unit result \<times> world" where
  "with_span P name body w =
     (case tracer_trace P name w of
        (Inl x, w1) \<Rightarrow> (Inl x, w1)
      | (Inr sp, w1) \<Rightarrow>
          (case body w1 of
             (Inl x, w2) \<Rightarrow>
               (case span_exit P sp (Some x) w2 of
                  (suppress, w3) \<Rightarrow> (if suppress then Inr () else Inl x, w3))
           | (Inr u, w2) \<Rightarrow>
               (case span_exit P sp None w2 of
                  (suppress, w3) \<Rightarrow> (Inr (), w3))))"

subsection \<open>The handler\<close>

definition lambda_handler :: "platform \<Rightarrow> ref \<Rightarrow> ref \<Rightarrow> world \<Rightarrow> pyval result \<times> world" where
  "lambda_handler P event context w =
     (case with_span P ''hello.world'' (py_print P ''Hello, World!'') w of
        (Inl x, w1) \<Rightarrow> (Inl x, w1)
      | (Inr u, w1) \<Rightarrow>
          (case with_span P ''sleep'' (time_sleep P 1) w1 of
             (Inl x, w2) \<Rightarrow> (Inl x, w2)
           | (Inr u', w2) \<Rightarrow>
               (case json_dumps (PDict [(''message'', PStr ''Hello world!'')]) of
                  Inl x \<Rightarrow> (Inl x, w2)
                | Inr body \<Rightarrow>
                    (Inr (PDict [(''statusCode'', PInt 200), (''body'', PStr body)]), w2))))"

subsection \<open>What an invocation leaves behind\<close>

text \<open>The calls that an invocation adds to the log.\<close>

definition new_calls :: "platform \<Rightarrow> ref \<Rightarrow> ref \<Rightarrow> world \<Rightarrow> entry list" where
  "new_calls P event context w =
     drop (length (calls w)) (calls (snd (lambda_handler P event context w)))"

text \<open>
  The spans that a log leaves open: a \<^verbatim>\<open>tracer.trace\<close> that returned opens one, the
  \<^verbatim>\<open>__exit__\<close> of a span closes it.
\<close>

definition span_step :: "span list \<Rightarrow> entry \<Rightarrow> span list" where
  "span_step st e =
     (case made e of
        TracerTrace n \<Rightarrow>
          (if raised e = None then \<lparr>span_name = n, start_ns = at_ns e\<rparr> # st else st)
      | SpanExit sp \<Rightarrow> remove1 sp st
      | Print s \<Rightarrow> st
      | TimeSleep secs \<Rightarrow> st)"

definition open_spans :: "span list \<Rightarrow> entry list \<Rightarrow> span list" where
  "open_spans st h = foldl span_step st h"

text \<open>The spans that a log has finished, in the order they were: name, start, end.\<close>

fun finished_spans :: "entry list \<Rightarrow> (string \<times> nat \<times> nat) list" where
  "finished_spans [] = []"
| "finished_spans (e # h) =
     (case made e of
        SpanExit sp \<Rightarrow> (span_name sp, start_ns sp, at_ns e) # finished_spans h
      | _ \<Rightarrow> finished_spans h)"

text \<open>The delays that a log has completed, in seconds.\<close>

fun slept :: "entry list \<Rightarrow> int list" where
  "slept [] = []"
| "slept (e # h) =
     (case made e of
        TimeSleep secs \<Rightarrow> (if raised e = None then secs # slept h else slept h)
      | _ \<Rightarrow> slept h)"

text \<open>The exceptions that the calls of a log raised.\<close>

fun raised_in :: "entry list \<Rightarrow> py_exception list" where
  "raised_in [] = []"
| "raised_in (e # h) =
     (case raised e of None \<Rightarrow> raised_in h | Some x \<Rightarrow> x # raised_in h)"

fun is_exit :: "call \<Rightarrow> bool" where
  "is_exit (SpanExit sp) = True"
| "is_exit _ = False"

fun is_sleep :: "call \<Rightarrow> bool" where
  "is_sleep (TimeSleep secs) = True"
| "is_sleep _ = False"

text \<open>The object the handler serializes, and the response of the handler.\<close>

definition hello_message :: pyval where
  "hello_message = PDict [(''message'', PStr ''Hello world!'')]"

definition hello_response :: pyval where
  "hello_response =
     PDict [(''statusCode'', PInt 200), (''body'', PStr ''{\"message\": \"Hello world!\"}'')]"

text \<open>
  An action that neither reads nor writes the object store: with another store it gives the
  same result and the same world, but for the store.
\<close>

definition store_blind :: "(world \<Rightarrow> 'a \<times> world) \<Rightarrow> bool" where
  "store_blind f =
     (\<forall>w store. f (w\<lparr>objects := store\<rparr>) = (fst (f w), (snd (f w))\<lparr>objects := store\<rparr>))"

subsection \<open>Sample platforms and worlds\<close>

text \<open>
  A platform on which every call returns after 5 ns, one whose standard output is closed,
  one on which the sleep is interrupted, a world in which the event is \<^verbatim>\<open>{}\<close> (at
  reference 3) and the context is \<^verbatim>\<open>None\<close> (at reference 4), and a later one with a
  larger event and a context object (at references 7 and 8).
\<close>

definition calm :: platform where
  "calm = \<lparr>raises = (\<lambda>h c. None), latency = (\<lambda>h c. 5)\<rparr>"

definition closed_stdout :: platform where
  "closed_stdout =
     \<lparr>raises = (\<lambda>h c. case c of Print s \<Rightarrow> Some (PyExc ''ValueError'' ''I/O operation on closed file'')
                            | _ \<Rightarrow> None),
      latency = (\<lambda>h c. 5)\<rparr>"

definition interrupted :: platform where
  "interrupted =
     \<lparr>raises = (\<lambda>h c. case c of TimeSleep secs \<Rightarrow> Some (PyExc ''KeyboardInterrupt'' [])
                            | _ \<Rightarrow> None),
      latency = (\<lambda>h c. 5)\<rparr>"

definition empty_event :: world where
  "empty_event =
     \<lparr>objects = (\<lambda>r. if r = 3 then Some (PDict []) else if r = 4 then Some PNone else None),
      clock = 100, calls = []\<rparr>"

definition busy_event :: world where
  "busy_event =
     \<lparr>objects = (\<lambda>r. if r = 7 then Some (PDict [(''path'', PStr ''/hello''), (''extra'', PInt 3)])
                     else if r = 8 then Some (PObject ''LambdaContext'') else None),
      clock = 2000, calls = [\<lparr>at_ns = 1500, made = Print ''warm'', raised = None\<rparr>]\<rparr>"

text \<open>The worlds that the sample runs end in.\<close>

definition after_calm :: world where
  "after_calm =
     empty_event
       \<lparr>clock := 1000000130,
        calls :=
          [\<lparr>at_ns = 100, made = TracerTrace ''hello.world'', raised = None\<rparr>,
           \<lparr>at_ns = 105, made = Print ''Hello, World!'', raised = None\<rparr>,
           \<lparr>at_ns = 110, made = SpanExit \<lparr>span_name = ''hello.world'', start_ns = 100\<rparr>,
              raised = None\<rparr>,
           \<lparr>at_ns = 115, made = TracerTrace ''sleep'', raised = None\<rparr>,
           \<lparr>at_ns = 120, made = TimeSleep 1, raised = None\<rparr>,
           \<lparr>at_ns = 1000000125, made = SpanExit \<lparr>span_name = ''sleep'', start_ns = 115\<rparr>,
              raised = None\<rparr>]\<rparr>"

definition after_calm_busy :: world where
  "after_calm_busy =
     busy_event
       \<lparr>clock := 1000002030,
        calls :=
          [\<lparr>at_ns = 1500, made = Print ''warm'', raised = None\<rparr>,
           \<lparr>at_ns = 2000, made = TracerTrace ''hello.world'', raised = None\<rparr>,
           \<lparr>at_ns = 2005, made = Print ''Hello, World!'', raised = None\<rparr>,
           \<lparr>at_ns = 2010, made = SpanExit \<lparr>span_name = ''hello.world'', start_ns = 2000\<rparr>,
              raised = None\<rparr>,
           \<lparr>at_ns = 2015, made = TracerTrace ''sleep'', raised = None\<rparr>,
           \<lparr>at_ns = 2020, made = TimeSleep 1, raised = None\<rparr>,
           \<lparr>at_ns = 1000002025, made = SpanExit \<lparr>span_name = ''sleep'', start_ns = 2015\<rparr>,
              raised = None\<rparr>]\<rparr>"

definition after_closed_stdout :: world where
  "after_closed_stdout =
     empty_event
       \<lparr>clock := 115,
        calls :=
          [\<lparr>at_ns = 100, made = TracerTrace ''hello.world'', raised = None\<rparr>,
           \<lparr>at_ns = 105, made = Print ''Hello, World!'',
              raised = Some (PyExc ''ValueError'' ''I/O operation on closed file'')\<rparr>,
           \<lparr>at_ns = 110, made = SpanExit \<lparr>span_name = ''hello.world'', start_ns = 100\<rparr>,
              raised = None\<rparr>]\<rparr>"

definition after_interrupted :: world where
  "after_interrupted =
     empty_event
       \<lparr>clock := 130,
        calls :=
          [\<lparr>at_ns = 100, made = TracerTrace ''hello.world'', raised = None\<rparr>,
           \<lparr>at_ns = 105, made = Print ''Hello, World!'', raised = None\<rparr>,
           \<lparr>at_ns = 110, made = SpanExit \<lparr>span_name = ''hello.world'', start_ns = 100\<rparr>,
              raised = None\<rparr>,
           \<lparr>at_ns = 115, made = TracerTrace ''sleep'', raised = None\<rparr>,
           \<lparr>at_ns = 120, made = TimeSleep 1, raised = Some (PyExc ''KeyboardInterrupt'' [])\<rparr>,
           \<lparr>at_ns = 125, made = SpanExit \<lparr>span_name = ''sleep'', start_ns = 115\<rparr>,
              raised = None\<rparr>]\<rparr>"

section \<open>Properties\<close>

subsection \<open>The runs of the handler\<close>

lemma invoke_simps:
  "calls (invoke P c out took w) = calls w @ [\<lparr>at_ns = clock w, made = c, raised = out\<rparr>]"
  "clock (invoke P c out took w) = clock w + took + latency P (calls w) c"
  "objects (invoke P c out took w) = objects w"
  by (simp_all add: invoke_def)

text \<open>
  The handler as one expression over the outcomes of its calls: there are five paths, one
  for each call that may raise and one on which none does.
\<close>

lemma handler_unfold:
  "lambda_handler P event context w =
    (let c1 = TracerTrace ''hello.world''; o1 = raises P (calls w) c1; w1 = invoke P c1 o1 0 w in
     case o1 of Some x \<Rightarrow> (Inl x, w1) | None \<Rightarrow>
     (let c2 = Print ''Hello, World!''; o2 = raises P (calls w1) c2; w2 = invoke P c2 o2 0 w1;
          w3 = invoke P (SpanExit \<lparr>span_name = ''hello.world'', start_ns = clock w\<rparr>) None 0 w2 in
      case o2 of Some x \<Rightarrow> (Inl x, w3) | None \<Rightarrow>
      (let c4 = TracerTrace ''sleep''; o4 = raises P (calls w3) c4; w4 = invoke P c4 o4 0 w3 in
       case o4 of Some x \<Rightarrow> (Inl x, w4) | None \<Rightarrow>
       (let c5 = TimeSleep 1; o5 = raises P (calls w4) c5;
            w5 = invoke P c5 o5 (case o5 of Some x \<Rightarrow> 0 | None \<Rightarrow> 1000000000) w4;
            w6 = invoke P (SpanExit \<lparr>span_name = ''sleep'', start_ns = clock w3\<rparr>) None 0 w5 in
        case o5 of Some x \<Rightarrow> (Inl x, w6) | None \<Rightarrow> (Inr hello_response, w6)))))"
  by (simp add: lambda_handler_def with_span_def tracer_trace_def py_print_def time_sleep_def
      span_exit_def hello_response_def encode_str_def escape_char_def Let_def
      split: option.splits)

text \<open>What each of the five paths returns and adds to the log.\<close>

lemma handler_cases:
  assumes "lambda_handler P event context w = (res, w')"
  shows "objects w' = objects w \<and>
    ((\<exists>x. res = Inl x \<and>
        calls w' = calls w @
          [\<lparr>at_ns = clock w, made = TracerTrace ''hello.world'', raised = Some x\<rparr>] \<and>
        clock w \<le> clock w')
   \<or> (\<exists>x t1 t2. res = Inl x \<and>
        calls w' = calls w @
          [\<lparr>at_ns = clock w, made = TracerTrace ''hello.world'', raised = None\<rparr>,
           \<lparr>at_ns = t1, made = Print ''Hello, World!'', raised = Some x\<rparr>,
           \<lparr>at_ns = t2, made = SpanExit \<lparr>span_name = ''hello.world'', start_ns = clock w\<rparr>,
              raised = None\<rparr>] \<and>
        clock w \<le> t1 \<and> t1 \<le> t2 \<and> t2 \<le> clock w')
   \<or> (\<exists>x t1 t2 t3. res = Inl x \<and>
        calls w' = calls w @
          [\<lparr>at_ns = clock w, made = TracerTrace ''hello.world'', raised = None\<rparr>,
           \<lparr>at_ns = t1, made = Print ''Hello, World!'', raised = None\<rparr>,
           \<lparr>at_ns = t2, made = SpanExit \<lparr>span_name = ''hello.world'', start_ns = clock w\<rparr>,
              raised = None\<rparr>,
           \<lparr>at_ns = t3, made = TracerTrace ''sleep'', raised = Some x\<rparr>] \<and>
        clock w \<le> t1 \<and> t1 \<le> t2 \<and> t2 \<le> t3 \<and> t3 \<le> clock w')
   \<or> (\<exists>x t1 t2 t3 t4 t5. res = Inl x \<and>
        calls w' = calls w @
          [\<lparr>at_ns = clock w, made = TracerTrace ''hello.world'', raised = None\<rparr>,
           \<lparr>at_ns = t1, made = Print ''Hello, World!'', raised = None\<rparr>,
           \<lparr>at_ns = t2, made = SpanExit \<lparr>span_name = ''hello.world'', start_ns = clock w\<rparr>,
              raised = None\<rparr>,
           \<lparr>at_ns = t3, made = TracerTrace ''sleep'', raised = None\<rparr>,
           \<lparr>at_ns = t4, made = TimeSleep 1, raised = Some x\<rparr>,
           \<lparr>at_ns = t5, made = SpanExit \<lparr>span_name = ''sleep'', start_ns = t3\<rparr>,
              raised = None\<rparr>] \<and>
        clock w \<le> t1 \<and> t1 \<le> t2 \<and> t2 \<le> t3 \<and> t3 \<le> t4 \<and> t4 \<le> t5 \<and> t5 \<le> clock w')
   \<or> (\<exists>t1 t2 t3 t4 t5. res = Inr hello_response \<and>
        calls w' = calls w @
          [\<lparr>at_ns = clock w, made = TracerTrace ''hello.world'', raised = None\<rparr>,
           \<lparr>at_ns = t1, made = Print ''Hello, World!'', raised = None\<rparr>,
           \<lparr>at_ns = t2, made = SpanExit \<lparr>span_name = ''hello.world'', start_ns = clock w\<rparr>,
              raised = None\<rparr>,
           \<lparr>at_ns = t3, made = TracerTrace ''sleep'', raised = None\<rparr>,
           \<lparr>at_ns = t4, made = TimeSleep 1, raised = None\<rparr>,
           \<lparr>at_ns = t5, made = SpanExit \<lparr>span_name = ''sleep'', start_ns = t3\<rparr>,
              raised = None\<rparr>] \<and>
        clock w \<le> t1 \<and> t1 \<le> t2 \<and> t2 \<le> t3 \<and> t3 \<le> t4 \<and>
        t4 + 1000000000 \<le> t5 \<and> t5 \<le> clock w'))"
  using assms unfolding handler_unfold
  by (auto simp: Let_def invoke_simps split: option.splits)


lemma new_calls_run:
  "lambda_handler P event context w = (res, w') \<Longrightarrow>
   new_calls P event context w = drop (length (calls w)) (calls w')"
  by (simp add: new_calls_def)

text \<open>When no call of an invocation raises, the handler returns its response.\<close>

lemma returns_when_no_call_raises:
  assumes "raised_in (new_calls P event context w) = []"
  shows "fst (lambda_handler P event context w) = Inr hello_response"
proof -
  obtain res w' where run: "lambda_handler P event context w = (res, w')"
    by (cases "lambda_handler P event context w")
  from handler_cases [OF run] assms have "res = Inr hello_response"
    by (elim conjE disjE exE) (simp_all add: new_calls_run [OF run])
  with run show ?thesis by simp
qed

text \<open>The sample runs.\<close>

lemma calm_run: "lambda_handler calm 3 4 empty_event = (Inr hello_response, after_calm)"
  by (simp add: handler_unfold calm_def empty_event_def after_calm_def invoke_def Let_def)

lemma calm_busy_run: "lambda_handler calm 7 8 busy_event = (Inr hello_response, after_calm_busy)"
  by (simp add: handler_unfold calm_def busy_event_def after_calm_busy_def invoke_def Let_def)

lemma closed_stdout_run:
  "lambda_handler closed_stdout 3 4 empty_event =
     (Inl (PyExc ''ValueError'' ''I/O operation on closed file''), after_closed_stdout)"
  by (simp add: handler_unfold closed_stdout_def empty_event_def after_closed_stdout_def
      invoke_def Let_def)

lemma interrupted_run:
  "lambda_handler interrupted 3 4 empty_event =
     (Inl (PyExc ''KeyboardInterrupt'' []), after_interrupted)"
  by (simp add: handler_unfold interrupted_def empty_event_def after_interrupted_def
      invoke_def Let_def)

lemma calm_new_calls:
  "new_calls calm 3 4 empty_event =
     [\<lparr>at_ns = 100, made = TracerTrace ''hello.world'', raised = None\<rparr>,
      \<lparr>at_ns = 105, made = Print ''Hello, World!'', raised = None\<rparr>,
      \<lparr>at_ns = 110, made = SpanExit \<lparr>span_name = ''hello.world'', start_ns = 100\<rparr>,
         raised = None\<rparr>,
      \<lparr>at_ns = 115, made = TracerTrace ''sleep'', raised = None\<rparr>,
      \<lparr>at_ns = 120, made = TimeSleep 1, raised = None\<rparr>,
      \<lparr>at_ns = 1000000125, made = SpanExit \<lparr>span_name = ''sleep'', start_ns = 115\<rparr>,
         raised = None\<rparr>]"
  unfolding new_calls_run [OF calm_run] by (simp add: after_calm_def empty_event_def)

lemma calm_busy_new_calls:
  "new_calls calm 7 8 busy_event =
     [\<lparr>at_ns = 2000, made = TracerTrace ''hello.world'', raised = None\<rparr>,
      \<lparr>at_ns = 2005, made = Print ''Hello, World!'', raised = None\<rparr>,
      \<lparr>at_ns = 2010, made = SpanExit \<lparr>span_name = ''hello.world'', start_ns = 2000\<rparr>,
         raised = None\<rparr>,
      \<lparr>at_ns = 2015, made = TracerTrace ''sleep'', raised = None\<rparr>,
      \<lparr>at_ns = 2020, made = TimeSleep 1, raised = None\<rparr>,
      \<lparr>at_ns = 1000002025, made = SpanExit \<lparr>span_name = ''sleep'', start_ns = 2015\<rparr>,
         raised = None\<rparr>]"
  unfolding new_calls_run [OF calm_busy_run] by (simp add: after_calm_busy_def busy_event_def)

lemma closed_stdout_new_calls:
  "new_calls closed_stdout 3 4 empty_event =
     [\<lparr>at_ns = 100, made = TracerTrace ''hello.world'', raised = None\<rparr>,
      \<lparr>at_ns = 105, made = Print ''Hello, World!'',
         raised = Some (PyExc ''ValueError'' ''I/O operation on closed file'')\<rparr>,
      \<lparr>at_ns = 110, made = SpanExit \<lparr>span_name = ''hello.world'', start_ns = 100\<rparr>,
         raised = None\<rparr>]"
  unfolding new_calls_run [OF closed_stdout_run] by (simp add: after_closed_stdout_def empty_event_def)

lemma interrupted_new_calls:
  "new_calls interrupted 3 4 empty_event =
     [\<lparr>at_ns = 100, made = TracerTrace ''hello.world'', raised = None\<rparr>,
      \<lparr>at_ns = 105, made = Print ''Hello, World!'', raised = None\<rparr>,
      \<lparr>at_ns = 110, made = SpanExit \<lparr>span_name = ''hello.world'', start_ns = 100\<rparr>,
         raised = None\<rparr>,
      \<lparr>at_ns = 115, made = TracerTrace ''sleep'', raised = None\<rparr>,
      \<lparr>at_ns = 120, made = TimeSleep 1, raised = Some (PyExc ''KeyboardInterrupt'' [])\<rparr>,
      \<lparr>at_ns = 125, made = SpanExit \<lparr>span_name = ''sleep'', start_ns = 115\<rparr>,
         raised = None\<rparr>]"
  unfolding new_calls_run [OF interrupted_run] by (simp add: after_interrupted_def empty_event_def)

lemma loads_hello:
  "json_loads ''{\"message\": \"Hello world!\"}'' = Inr hello_message"
  unfolding hello_message_def by code_simp

lemma dumps_hello:
  "json_dumps hello_message = Inr ''{\"message\": \"Hello world!\"}''"
  by (simp add: hello_message_def encode_str_def escape_char_def)

lemma returned_response:
  "lambda_handler P event context w = (Inr r, w') \<Longrightarrow> r = hello_response"
  using handler_cases [of P event "context" w "Inr r" "w'"] by auto

text \<open>The handler uses neither of its arguments, nor the store they point into.\<close>

lemma arguments_unused:
  "lambda_handler P event context w = lambda_handler P 0 0 w"
  by (simp add: lambda_handler_def)

lemma objects_kept:
  "objects (snd (lambda_handler P event context w)) = objects w"
  by (rule handler_cases [THEN conjunct1]) (rule prod.collapse [symmetric])

lemma invoke_store:
  "invoke P c out took (w\<lparr>objects := store\<rparr>) = (invoke P c out took w)\<lparr>objects := store\<rparr>"
  by (simp add: invoke_def)

lemma store_blind_print: "store_blind (py_print P s)"
  by (simp add: store_blind_def py_print_def invoke_store Let_def)

lemma store_blind_sleep: "store_blind (time_sleep P secs)"
  by (simp add: store_blind_def time_sleep_def invoke_store Let_def)

lemma store_blind_with_span:
  assumes "store_blind body"
  shows "store_blind (with_span P name body)"
proof -
  have body: "\<And>w store. body (w\<lparr>objects := store\<rparr>) = (fst (body w), (snd (body w))\<lparr>objects := store\<rparr>)"
    using assms by (simp add: store_blind_def)
  show ?thesis
    unfolding store_blind_def
  proof (intro allI)
    fix w store
    show "with_span P name body (w\<lparr>objects := store\<rparr>) =
        (fst (with_span P name body w), (snd (with_span P name body w))\<lparr>objects := store\<rparr>)"
    proof (cases "raises P (calls w) (TracerTrace name)")
      case (Some x)
      then show ?thesis
        by (simp add: with_span_def tracer_trace_def invoke_store Let_def)
    next
      case None
      then show ?thesis
        by (cases "body (invoke P (TracerTrace name) None 0 w)")
           (simp add: with_span_def tracer_trace_def span_exit_def invoke_store body Let_def
              split: sum.splits)
    qed
  qed
qed

lemma store_blind_handler: "store_blind (lambda_handler P event context)"
proof -
  have hw: "store_blind (with_span P ''hello.world'' (py_print P ''Hello, World!''))"
    by (rule store_blind_with_span [OF store_blind_print])
  have sl: "store_blind (with_span P ''sleep'' (time_sleep P 1))"
    by (rule store_blind_with_span [OF store_blind_sleep])
  show ?thesis
    unfolding store_blind_def
  proof (intro allI)
    fix w store
    obtain r1 w1 where a: "with_span P ''hello.world'' (py_print P ''Hello, World!'') w = (r1, w1)"
      by (cases "with_span P ''hello.world'' (py_print P ''Hello, World!'') w")
    obtain r2 w2 where b: "with_span P ''sleep'' (time_sleep P 1) w1 = (r2, w2)"
      by (cases "with_span P ''sleep'' (time_sleep P 1) w1")
    from hw a have a': "with_span P ''hello.world'' (py_print P ''Hello, World!'')
        (w\<lparr>objects := store\<rparr>) = (r1, w1\<lparr>objects := store\<rparr>)"
      by (simp add: store_blind_def)
    from sl b have b': "with_span P ''sleep'' (time_sleep P 1) (w1\<lparr>objects := store\<rparr>) =
        (r2, w2\<lparr>objects := store\<rparr>)"
      by (simp add: store_blind_def)
    show "lambda_handler P event context (w\<lparr>objects := store\<rparr>) =
        (fst (lambda_handler P event context w),
         (snd (lambda_handler P event context w))\<lparr>objects := store\<rparr>)"
      by (simp add: lambda_handler_def a a' b b' split: sum.splits)
  qed
qed

subsection \<open>The response\<close>

text \<open>
  Claim C1, as amended. For every event and context: when none of the library calls of an
  invocation raises, \<open>lambda_handler\<close> returns a response whose \<open>statusCode\<close> is 200;
  and any response it returns has \<open>statusCode\<close> 200. When a call raises, nothing is returned.
\<close>

theorem status_200_when_no_call_raises:
  "(raised_in (new_calls P event context w) = [] \<longrightarrow>
      (\<exists>r w'. lambda_handler P event context w = (Inr r, w') \<and>
               dict_get r ''statusCode'' = Some (PInt 200))) \<and>
   (lambda_handler P event context w = (Inr r, w') \<longrightarrow>
      dict_get r ''statusCode'' = Some (PInt 200))"
proof (intro conjI impI)
  assume quiet_run: "raised_in (new_calls P event context w) = []"
  obtain res w1 where run: "lambda_handler P event context w = (res, w1)"
    by (cases "lambda_handler P event context w")
  from handler_cases [OF run] quiet_run have "res = Inr hello_response"
    by (elim conjE disjE exE) (simp_all add: new_calls_run [OF run])
  with run show "\<exists>r w'. lambda_handler P event context w = (Inr r, w') \<and>
      dict_get r ''statusCode'' = Some (PInt 200)"
    by (simp add: hello_response_def)
next
  assume "lambda_handler P event context w = (Inr r, w')"
  then have "r = hello_response" by (rule returned_response)
  then show "dict_get r ''statusCode'' = Some (PInt 200)"
    by (simp add: hello_response_def)
qed

theorem status_200_when_no_call_raises_witness:
  "raised_in (new_calls calm 3 4 empty_event) = [] \<and>
   lambda_handler calm 3 4 empty_event = (Inr hello_response, after_calm) \<and>
   dict_get hello_response ''statusCode'' = Some (PInt 200)"
  using status_200_when_no_call_raises [of calm 3 4 empty_event hello_response after_calm]
  by (simp add: calm_run calm_new_calls)

text \<open>
  With the standard output closed, \<^verbatim>\<open>print\<close> raises \<^verbatim>\<open>ValueError\<close> and the invocation
  returns no response.
\<close>

theorem no_response_on_closed_stdout:
  "fst (lambda_handler closed_stdout 3 4 empty_event) =
     Inl (PyExc ''ValueError'' ''I/O operation on closed file'')"
  by (simp add: closed_stdout_run)

text \<open>
  Claim C2. For every invocation, the \<open>body\<close> of the value that \<open>lambda_handler\<close> returns
  is a JSON text that decodes to exactly the object with the one key \<open>message\<close> and the
  value \<open>Hello world!\<close>; it is the serialization of that object, so that decoding
  recovers what was serialized.
\<close>

theorem body_decodes_to_hello_message:
  "lambda_handler P event context w = (Inr r, w') \<Longrightarrow>
   \<exists>body doc. dict_get r ''body'' = Some (PStr body) \<and>
     json_loads body = Inr doc \<and>
     doc = PDict [(''message'', PStr ''Hello world!'')] \<and>
     dict_keys doc = [''message''] \<and>
     json_dumps doc = Inr body"
proof -
  assume "lambda_handler P event context w = (Inr r, w')"
  then have "r = hello_response" by (rule returned_response)
  then have "dict_get r ''body'' = Some (PStr ''{\"message\": \"Hello world!\"}'')"
    by (simp add: hello_response_def)
  moreover have "json_loads ''{\"message\": \"Hello world!\"}'' =
      Inr (PDict [(''message'', PStr ''Hello world!'')])"
    using loads_hello by (simp only: hello_message_def)
  moreover have "json_dumps (PDict [(''message'', PStr ''Hello world!'')]) =
      Inr ''{\"message\": \"Hello world!\"}''"
    using dumps_hello by (simp only: hello_message_def)
  moreover have "dict_keys (PDict [(''message'', PStr ''Hello world!'')]) = [''message'']"
    by simp
  ultimately show ?thesis by blast
qed

theorem body_decodes_to_hello_message_witness:
  "lambda_handler calm 3 4 empty_event = (Inr hello_response, after_calm) \<and>
   (\<exists>body. dict_get hello_response ''body'' = Some (PStr body) \<and>
      json_loads body = Inr (PDict [(''message'', PStr ''Hello world!'')]))"
  using body_decodes_to_hello_message [OF calm_run] calm_run by blast

text \<open>
  Claim C3, as amended. On the event \<^verbatim>\<open>{}\<close> and the context \<^verbatim>\<open>None\<close>, whenever none of the
  library calls of the invocation raises, \<open>lambda_handler\<close> returns exactly the record with
  \<open>statusCode\<close> 200 and the body \<^verbatim>\<open>{"message": "Hello world!"}\<close>, with the space after the
  colon.
\<close>

theorem empty_event_response:
  "raised_in (new_calls P event context w) = [] \<Longrightarrow>
   objects w event = Some (PDict []) \<Longrightarrow> objects w context = Some PNone \<Longrightarrow>
   fst (lambda_handler P event context w) =
     Inr (PDict [(''statusCode'', PInt 200),
                 (''body'', PStr ''{\"message\": \"Hello world!\"}'')])"
  using returns_when_no_call_raises [of P event "context" w] by (simp add: hello_response_def)

theorem empty_event_response_witness:
  "raised_in (new_calls calm 3 4 empty_event) = [] \<and>
   objects empty_event 3 = Some (PDict []) \<and> objects empty_event 4 = Some PNone \<and>
   fst (lambda_handler calm 3 4 empty_event) =
     Inr (PDict [(''statusCode'', PInt 200),
                 (''body'', PStr ''{\"message\": \"Hello world!\"}'')])"
proof -
  have q: "raised_in (new_calls calm 3 4 empty_event) = []" by (simp add: calm_new_calls)
  have e: "objects empty_event 3 = Some (PDict [])" by (simp add: empty_event_def)
  have c: "objects empty_event 4 = Some PNone" by (simp add: empty_event_def)
  show ?thesis
    by (intro conjI) (rule q, rule e, rule c, rule empty_event_response [OF q e c])
qed

text \<open>
  On the same event and context, when the sleep is interrupted, the invocation raises
  \<^verbatim>\<open>KeyboardInterrupt\<close> and returns no record.
\<close>

theorem empty_event_interrupted:
  "objects empty_event 3 = Some (PDict []) \<and> objects empty_event 4 = Some PNone \<and>
   fst (lambda_handler interrupted 3 4 empty_event) = Inl (PyExc ''KeyboardInterrupt'' [])"
proof (intro conjI)
  show "objects empty_event 3 = Some (PDict [])" by (simp add: empty_event_def)
  show "objects empty_event 4 = Some PNone" by (simp add: empty_event_def)
  show "fst (lambda_handler interrupted 3 4 empty_event) = Inl (PyExc ''KeyboardInterrupt'' [])"
    unfolding interrupted_run by simp
qed

text \<open>
  Claim C4. The outcome of an invocation does not depend on the event, on the context or on
  what they point to: with the same platform, clock and log, any two events and contexts
  give the same outcome; and any two invocations that return a response return the same
  one.
\<close>

theorem response_ignores_event_and_context:
  "fst (lambda_handler P event1 context1 (w\<lparr>objects := store1\<rparr>)) =
     fst (lambda_handler P event2 context2 (w\<lparr>objects := store2\<rparr>)) \<and>
   (lambda_handler P1 event1 context1 w1 = (Inr r1, w1') \<longrightarrow>
    lambda_handler P2 event2 context2 w2 = (Inr r2, w2') \<longrightarrow> r1 = r2)"
proof (intro conjI impI)
  have "fst (lambda_handler P event1 context1 (w\<lparr>objects := store1\<rparr>)) =
      fst (lambda_handler P event1 context1 w)"
    using store_blind_handler [of P event1 context1] by (simp add: store_blind_def)
  moreover have "fst (lambda_handler P event2 context2 (w\<lparr>objects := store2\<rparr>)) =
      fst (lambda_handler P event2 context2 w)"
    using store_blind_handler [of P event2 context2] by (simp add: store_blind_def)
  moreover have "lambda_handler P event1 context1 w = lambda_handler P event2 context2 w"
    using arguments_unused [of P event1 context1 w] arguments_unused [of P event2 context2 w]
    by simp
  ultimately show "fst (lambda_handler P event1 context1 (w\<lparr>objects := store1\<rparr>)) =
     fst (lambda_handler P event2 context2 (w\<lparr>objects := store2\<rparr>))"
    by simp
next
  assume first: "lambda_handler P1 event1 context1 w1 = (Inr r1, w1')"
    and second: "lambda_handler P2 event2 context2 w2 = (Inr r2, w2')"
  from first have "r1 = hello_response" by (rule returned_response)
  moreover from second have "r2 = hello_response" by (rule returned_response)
  ultimately show "r1 = r2" by simp
qed

theorem response_ignores_event_and_context_witness:
  "lambda_handler calm 3 4 empty_event = (Inr hello_response, after_calm) \<and>
   lambda_handler calm 7 8 busy_event = (Inr hello_response, after_calm_busy) \<and>
   fst (lambda_handler calm 3 4 (busy_event\<lparr>objects := objects empty_event\<rparr>)) =
     fst (lambda_handler calm 7 8 (busy_event\<lparr>objects := objects busy_event\<rparr>))"
proof -
  note both = response_ignores_event_and_context
    [of calm 3 4 "objects empty_event" busy_event 7 8 "objects busy_event"
        calm empty_event hello_response after_calm calm busy_event hello_response after_calm_busy]
  from both have same:
    "fst (lambda_handler calm 3 4 (busy_event\<lparr>objects := objects empty_event\<rparr>)) =
     fst (lambda_handler calm 7 8 (busy_event\<lparr>objects := objects busy_event\<rparr>))"
    by (rule conjunct1)
  show ?thesis
    by (intro conjI) (rule calm_run, rule calm_busy_run, rule same)
qed

text \<open>
  Claim C10. The record that \<open>lambda_handler\<close> returns has exactly the two keys
  \<open>statusCode\<close> and \<open>body\<close>, and no \<open>headers\<close>; its \<open>statusCode\<close> is the integer 200, not
  the string \<^verbatim>\<open>"200"\<close>.
\<close>

theorem response_has_two_keys:
  "lambda_handler P event context w = (Inr r, w') \<Longrightarrow>
   dict_keys r = [''statusCode'', ''body''] \<and>
   (dict_get r k \<noteq> None \<longleftrightarrow> k = ''statusCode'' \<or> k = ''body'') \<and>
   dict_get r ''headers'' = None \<and>
   dict_get r ''statusCode'' = Some (PInt 200) \<and>
   dict_get r ''statusCode'' \<noteq> Some (PStr ''200'')"
proof -
  assume "lambda_handler P event context w = (Inr r, w')"
  then have "r = hello_response" by (rule returned_response)
  then show ?thesis by (simp add: hello_response_def)
qed

theorem response_has_two_keys_witness:
  "lambda_handler calm 3 4 empty_event = (Inr hello_response, after_calm) \<and>
   dict_keys hello_response = [''statusCode'', ''body''] \<and>
   dict_get hello_response ''body'' \<noteq> None \<and>
   dict_get hello_response ''headers'' = None"
  using response_has_two_keys [OF calm_run, of "''body''"] calm_run by simp

subsection \<open>The effects\<close>

text \<open>
  Claim C5, as amended. Every invocation in which neither \<^verbatim>\<open>tracer.trace\<close> nor \<^verbatim>\<open>print\<close>
  raises, whether the sleep returns or raises, makes exactly these calls, in this order and
  at times that do not decrease: the span \<open>hello.world\<close> is started, the line
  \<open>Hello, World!\<close> is printed, the span is finished, the span \<open>sleep\<close> is started, the
  handler sleeps for one second, the span is finished. So it emits exactly the two spans
  \<open>hello.world\<close> and \<open>sleep\<close>, in that order, the second started no earlier than the first
  was finished, each finished no earlier than it was started, and the line is printed
  inside the first.
\<close>

theorem two_spans_when_trace_and_print_return:
  "list_all (\<lambda>e. raised e = None \<or> is_sleep (made e)) (new_calls P event context w) \<Longrightarrow>
   \<exists>t1 t2 t3 t4 t5 out.
     new_calls P event context w =
       [\<lparr>at_ns = clock w, made = TracerTrace ''hello.world'', raised = None\<rparr>,
        \<lparr>at_ns = t1, made = Print ''Hello, World!'', raised = None\<rparr>,
        \<lparr>at_ns = t2, made = SpanExit \<lparr>span_name = ''hello.world'', start_ns = clock w\<rparr>,
           raised = None\<rparr>,
        \<lparr>at_ns = t3, made = TracerTrace ''sleep'', raised = None\<rparr>,
        \<lparr>at_ns = t4, made = TimeSleep 1, raised = out\<rparr>,
        \<lparr>at_ns = t5, made = SpanExit \<lparr>span_name = ''sleep'', start_ns = t3\<rparr>,
           raised = None\<rparr>] \<and>
     finished_spans (new_calls P event context w) =
       [(''hello.world'', clock w, t2), (''sleep'', t3, t5)] \<and>
     clock w \<le> t1 \<and> t1 \<le> t2 \<and> t2 \<le> t3 \<and> t3 \<le> t4 \<and> t4 \<le> t5"
proof -
  assume ok: "list_all (\<lambda>e. raised e = None \<or> is_sleep (made e)) (new_calls P event context w)"
  obtain res w' where run: "lambda_handler P event context w = (res, w')"
    by (cases "lambda_handler P event context w")
  from handler_cases [OF run] ok show ?thesis
    unfolding new_calls_run [OF run]
    by (elim conjE disjE exE) auto
qed

theorem two_spans_when_trace_and_print_return_witness:
  "list_all (\<lambda>e. raised e = None \<or> is_sleep (made e)) (new_calls interrupted 3 4 empty_event) \<and>
   fst (lambda_handler interrupted 3 4 empty_event) = Inl (PyExc ''KeyboardInterrupt'' []) \<and>
   finished_spans (new_calls interrupted 3 4 empty_event) =
     [(''hello.world'', 100, 110), (''sleep'', 115, 125)]"
proof -
  have ok: "list_all (\<lambda>e. raised e = None \<or> is_sleep (made e))
      (new_calls interrupted 3 4 empty_event)"
    by (simp add: interrupted_new_calls)
  have raised: "fst (lambda_handler interrupted 3 4 empty_event) =
      Inl (PyExc ''KeyboardInterrupt'' [])"
    unfolding interrupted_run by simp
  from two_spans_when_trace_and_print_return [OF ok]
  have "finished_spans (new_calls interrupted 3 4 empty_event) =
      [(''hello.world'', 100, 110), (''sleep'', 115, 125)]"
    by (simp add: interrupted_new_calls)
  with ok raised show ?thesis by (intro conjI)
qed

text \<open>
  With the standard output closed, the invocation emits the span \<open>hello.world\<close> only.
\<close>

theorem one_span_on_closed_stdout:
  "finished_spans (new_calls closed_stdout 3 4 empty_event) = [(''hello.world'', 100, 110)]"
  by (simp add: closed_stdout_new_calls)

text \<open>
  Claim C6. On every path through the handler, whether its calls return or raise, every span
  that the handler has started has been finished when the handler is left: the open spans
  are those that were open before.
\<close>

theorem spans_closed_on_every_path:
  "open_spans st (new_calls P event context w) = st"
proof -
  obtain res w' where run: "lambda_handler P event context w = (res, w')"
    by (cases "lambda_handler P event context w")
  from handler_cases [OF run] show ?thesis
    unfolding new_calls_run [OF run]
    by (elim conjE disjE exE) (simp_all add: open_spans_def span_step_def)
qed

theorem spans_closed_on_every_path_witness:
  "fst (lambda_handler interrupted 3 4 empty_event) = Inl (PyExc ''KeyboardInterrupt'' []) \<and>
   open_spans [] (new_calls interrupted 3 4 empty_event) = []"
proof (intro conjI)
  show "fst (lambda_handler interrupted 3 4 empty_event) = Inl (PyExc ''KeyboardInterrupt'' [])"
    unfolding interrupted_run by simp
  show "open_spans [] (new_calls interrupted 3 4 empty_event) = []"
    by (rule spans_closed_on_every_path)
qed

text \<open>
  Claim C7. The handler raises an exception exactly when one of its library calls raises
  it (the serialization of the fixed message cannot raise). At most one call raises, no
  call is made twice, and after the call that raised only the \<^verbatim>\<open>__exit__\<close> of the open span
  is called: nothing is caught and nothing is tried again.
\<close>

theorem raises_iff_a_call_raises:
  "(fst (lambda_handler P event context w) = Inl x \<longleftrightarrow>
      x \<in> set (raised_in (new_calls P event context w))) \<and>
   length (raised_in (new_calls P event context w)) \<le> 1 \<and>
   distinct (map made (new_calls P event context w)) \<and>
   list_all (\<lambda>e. is_exit (made e))
     (tl (dropWhile (\<lambda>e. raised e = None) (new_calls P event context w)))"
proof -
  obtain res w' where run: "lambda_handler P event context w = (res, w')"
    by (cases "lambda_handler P event context w")
  from handler_cases [OF run] show ?thesis
    unfolding new_calls_run [OF run] run
    by (elim conjE disjE exE) auto
qed

theorem raises_iff_a_call_raises_witness:
  "fst (lambda_handler closed_stdout 3 4 empty_event) =
     Inl (PyExc ''ValueError'' ''I/O operation on closed file'') \<and>
   raised_in (new_calls closed_stdout 3 4 empty_event) =
     [PyExc ''ValueError'' ''I/O operation on closed file'']"
  using raises_iff_a_call_raises
    [of closed_stdout 3 4 empty_event "PyExc ''ValueError'' ''I/O operation on closed file''"]
  by (simp add: closed_stdout_new_calls closed_stdout_run)

text \<open>
  Claim C8. Every invocation that returns normally completes exactly one delay, of one
  second, and at least one second (\<open>1000000000\<close> ns) has passed on the clock when it
  returns.
\<close>

theorem one_second_delay:
  "lambda_handler P event context w = (Inr r, w') \<Longrightarrow>
   slept (new_calls P event context w) = [1] \<and> clock w + 1000000000 \<le> clock w'"
proof -
  assume run: "lambda_handler P event context w = (Inr r, w')"
  from handler_cases [OF run] show ?thesis
    unfolding new_calls_run [OF run]
    by (elim conjE disjE exE) auto
qed

theorem one_second_delay_witness:
  "lambda_handler calm 7 8 busy_event = (Inr hello_response, after_calm_busy) \<and>
   slept (new_calls calm 7 8 busy_event) = [1] \<and>
   clock busy_event + 1000000000 \<le> clock after_calm_busy"
  using one_second_delay [OF calm_busy_run] calm_busy_run by blast

text \<open>
  Claim C9. An invocation leaves the objects of its caller, the event and the context among
  them, as they were; and it reads none of them: with any other contents of the store it
  returns the same result and makes the same calls at the same times.
\<close>

theorem event_and_context_untouched:
  "objects (snd (lambda_handler P event context w)) = objects w \<and>
   lambda_handler P event context (w\<lparr>objects := store\<rparr>) =
     (fst (lambda_handler P event context w),
      (snd (lambda_handler P event context w))\<lparr>objects := store\<rparr>)"
proof (intro conjI)
  show "objects (snd (lambda_handler P event context w)) = objects w"
    by (rule objects_kept)
  show "lambda_handler P event context (w\<lparr>objects := store\<rparr>) =
     (fst (lambda_handler P event context w),
      (snd (lambda_handler P event context w))\<lparr>objects := store\<rparr>)"
    using store_blind_handler [of P event "context"] by (simp add: store_blind_def)
qed

theorem event_and_context_untouched_witness:
  "objects after_calm_busy = objects busy_event"
  using event_and_context_untouched [of calm 7 8 busy_event] calm_busy_run by simp

end
